theory Spec2Isabelle
  imports Main
begin

section \<open>Data model\<close>

text \<open>
  The client mirrors a two-player 3x3 game. The types follow
  \<^verbatim>\<open>services/api.ts\<close>, \<^verbatim>\<open>services/websocket.ts\<close> and
  \<^verbatim>\<open>stores/game.ts\<close>: a cell is \<^verbatim>\<open>'X' | 'O' | null\<close>, the winner is
  \<^verbatim>\<open>'X' | 'O' | 'DRAW' | null\<close>, and a nullable value is an \<open>option\<close>.
  The game status is kept as a string: the \<^verbatim>\<open>move_made\<close> handler stores the
  message's \<^verbatim>\<open>game_status: string\<close> through an unchecked cast.
  \<open>SymX\<close> and \<open>SymO\<close> are the symbols \<^verbatim>\<open>'X'\<close> and \<^verbatim>\<open>'O'\<close>.
\<close>

datatype symbol = SymX | SymO

datatype outcome = WinX | WinO | DRAW

type_synonym cell = "symbol option"

type_synonym grid = "cell list list"

datatype error = Error string | TypeError string

record game =
  id_game :: string
  player_x_id :: "string option"
  player_o_id :: "string option"
  status :: string
  created_at :: string

record move_response =
  message :: string
  move_id :: string
  position :: string
  symbol_of :: symbol
  board :: grid
  winner :: "outcome option"
  game_status :: string
  next_turn :: "symbol option"

datatype ws_message =
    create_room string
  | join_room string
  | room_created string int
  | room_joined string int
  | player_joined string int
  | game_started string string
  | move_made string string string symbol grid "outcome option" string

text \<open>The \<^verbatim>\<open>type\<close> tag of a message, the key of the listener table.\<close>

fun type_tag :: "ws_message \<Rightarrow> string" where
  "type_tag (create_room _) = ''create_room''"
| "type_tag (join_room _) = ''join_room''"
| "type_tag (room_created _ _) = ''room_created''"
| "type_tag (room_joined _ _) = ''room_joined''"
| "type_tag (player_joined _ _) = ''player_joined''"
| "type_tag (game_started _ _) = ''game_started''"
| "type_tag (move_made _ _ _ _ _ _ _) = ''move_made''"

text \<open>
  Everything the client does to the outside world is recorded as an effect, in the
  order it happens: the HTTP move request, the calls on the browser's WebSocket, and
  the timers.
\<close>

datatype effect =
    HttpMakeMove string string string
  | NewWebSocket
  | WsSend ws_message
  | WsClose
  | HttpCreateGame string
  | HttpJoinGame string string
  | HttpGetGame string
  | HttpGetBoard string
  | SetTimeout nat
  | SetInterval nat
  | ClearInterval nat
  | Alert string

section \<open>GameWebSocket\<close>

text \<open>
  \<^verbatim>\<open>this.ws\<close> is the browser handle or null; of the handle only its
  \<^verbatim>\<open>readyState\<close> matters. The listeners registered by the store are the five
  closures of \<^verbatim>\<open>connectWebSocket\<close>, named here by the message they handle.
\<close>

datatype ready_state = CONNECTING | OPEN | CLOSING | CLOSED

datatype listener = on_room_created | on_room_joined | on_player_joined
  | on_game_started | on_move_made

record game_web_socket =
  ws_handle :: "ready_state option"
  reconnectAttempts :: nat
  listeners :: "(string \<times> listener list) list"

text \<open>
  \<^verbatim>\<open>maxReconnectAttempts\<close> and \<^verbatim>\<open>reconnectDelay\<close> are private fields that are
  initialised and never assigned again, so they are constants of the model.
\<close>

definition maxReconnectAttempts :: nat where
  "maxReconnectAttempts = 5"

definition reconnectDelay :: nat where
  "reconnectDelay = 1000"

definition new_GameWebSocket :: game_web_socket where
  "new_GameWebSocket = \<lparr>ws_handle = None, reconnectAttempts = 0, listeners = []\<rparr>"

text \<open>\<^verbatim>\<open>connect()\<close> up to the point where the promise is pending.\<close>

definition connect :: "game_web_socket \<Rightarrow> game_web_socket \<times> effect list" where
  "connect g = (g\<lparr>ws_handle := Some CONNECTING\<rparr>, [NewWebSocket])"

text \<open>The \<^verbatim>\<open>onopen\<close> handler; the browser has set the handle to OPEN.\<close>

definition onopen :: "game_web_socket \<Rightarrow> game_web_socket" where
  "onopen g = g\<lparr>ws_handle := Some OPEN, reconnectAttempts := 0\<rparr>"

definition attemptReconnect :: "game_web_socket \<Rightarrow> game_web_socket \<times> effect list" where
  "attemptReconnect g =
     (if reconnectAttempts g < maxReconnectAttempts
      then (let g' = g\<lparr>reconnectAttempts := reconnectAttempts g + 1\<rparr>
            in (g', [SetTimeout (reconnectDelay * reconnectAttempts g')]))
      else (g, []))"

definition onclose :: "game_web_socket \<Rightarrow> game_web_socket \<times> effect list" where
  "onclose g = attemptReconnect (g\<lparr>ws_handle := None\<rparr>)"

text \<open>The callback given to \<^verbatim>\<open>setTimeout\<close>: connect again, rejection swallowed.\<close>

definition reconnect_timeout :: "game_web_socket \<Rightarrow> game_web_socket \<times> effect list" where
  "reconnect_timeout g = connect g"

definition send :: "game_web_socket \<Rightarrow> ws_message \<Rightarrow> effect list" where
  "send g m = (if ws_handle g = Some OPEN then [WsSend m] else [])"

fun on :: "game_web_socket \<Rightarrow> string \<Rightarrow> listener \<Rightarrow> game_web_socket" where
  "on g messageType callback =
     (case map_of (listeners g) messageType of
        None \<Rightarrow> g\<lparr>listeners := listeners g @ [(messageType, [callback])]\<rparr>
      | Some cs \<Rightarrow> g\<lparr>listeners := map (\<lambda>(k, v). if k = messageType
            then (k, if callback \<in> set v then v else v @ [callback]) else (k, v)) (listeners g)\<rparr>)"

definition disconnect :: "game_web_socket \<Rightarrow> game_web_socket \<times> effect list" where
  "disconnect g =
     (case ws_handle g of
        Some _ \<Rightarrow> (g\<lparr>ws_handle := None, listeners := []\<rparr>, [WsClose])
      | None \<Rightarrow> (g\<lparr>listeners := []\<rparr>, []))"

definition isConnected_ws :: "game_web_socket \<Rightarrow> bool" where
  "isConnected_ws g = (ws_handle g = Some OPEN)"

section \<open>The game store\<close>

record store =
  currentGame :: "game option"
  board :: grid
  currentPlayer :: "symbol option"
  winner :: "outcome option"
  gameStatus :: string
  playerXId :: string
  playerOId :: string
  myPlayerId :: string
  mySymbol :: "symbol option"
  ws :: "game_web_socket option"
  isConnected :: bool
  playersInRoom :: int

definition empty_board :: grid where
  "empty_board = [[None, None, None], [None, None, None], [None, None, None]]"

definition initial_store :: store where
  "initial_store = \<lparr>currentGame = None, board = empty_board, currentPlayer = None,
     winner = None, gameStatus = ''waiting'', playerXId = [], playerOId = [],
     myPlayerId = [], mySymbol = None, ws = None, isConnected = False,
     playersInRoom = 0\<rparr>"

definition isMyTurn :: "store \<Rightarrow> bool" where
  "isMyTurn s =
     (if currentPlayer s = None \<or> mySymbol s = None then False
      else currentPlayer s = mySymbol s)"

definition canMakeMove :: "store \<Rightarrow> bool" where
  "canMakeMove s = (gameStatus s = ''ongoing'' \<and> isMyTurn s \<and> winner s = None)"

text \<open>Decimal rendering of the numbers in the template literal of \<^verbatim>\<open>makeMove\<close>.\<close>

fun string_of_nat :: "nat \<Rightarrow> string" where
  "string_of_nat n =
     (if n < 10 then [''0123456789'' ! n]
      else string_of_nat (n div 10) @ [''0123456789'' ! (n mod 10)])"

definition string_of_int :: "int \<Rightarrow> string" where
  "string_of_int i =
     (if i < 0 then CHR ''-'' # string_of_nat (nat (- i)) else string_of_nat (nat i))"

text \<open>
  \<^verbatim>\<open>makeMove(row, col)\<close>. The reply of the move endpoint is an argument: \<open>Inl\<close> when
  \<^verbatim>\<open>api.makeMove\<close> throws, \<open>Inr\<close> the decoded response. The result is what the
  promise settles to, the store afterwards, and the requests that were sent.
\<close>

definition makeMove ::
  "store \<Rightarrow> int \<Rightarrow> int \<Rightarrow> error + move_response
     \<Rightarrow> (error + move_response) \<times> store \<times> effect list" where
  "makeMove s row col reply =
     (case currentGame s of
        None \<Rightarrow> (Inl (Error ''No active game or player ID''), s, [])
      | Some g \<Rightarrow>
          if myPlayerId s = [] then (Inl (Error ''No active game or player ID''), s, [])
          else if \<not> canMakeMove s then (Inl (Error ''It is not your turn''), s, [])
          else
            (let position = string_of_int row @ '','' @ string_of_int col;
                 request = HttpMakeMove (id_game g) (myPlayerId s) position
             in case reply of
                  Inl e \<Rightarrow> (Inl e, s, [request])
                | Inr response \<Rightarrow>
                    (Inr response,
                     s\<lparr>board := move_response.board response,
                       winner := move_response.winner response,
                       gameStatus := game_status response,
                       currentPlayer := next_turn response\<rparr>,
                     [request])))"

text \<open>
  \<^verbatim>\<open>reset()\<close>: every field back to its initial value; a live socket object is
  disconnected first and the reference dropped.
\<close>

definition reset :: "store \<Rightarrow> store \<times> effect list" where
  "reset s =
     (let s1 = s\<lparr>currentGame := None, board := empty_board, currentPlayer := None,
                 winner := None, gameStatus := ''waiting'', playerXId := [],
                 playerOId := [], myPlayerId := [], mySymbol := None,
                 playersInRoom := 0\<rparr>
      in case ws s1 of
           Some g \<Rightarrow> (s1\<lparr>ws := None, isConnected := False\<rparr>, snd (disconnect g))
         | None \<Rightarrow> (s1\<lparr>isConnected := False\<rparr>, []))"

text \<open>
  The five listeners of \<^verbatim>\<open>connectWebSocket\<close>. Each one checks the tag of the
  message again and ignores any other message.
\<close>

fun room_created_listener :: "ws_message \<Rightarrow> store \<Rightarrow> store" where
  "room_created_listener (room_created _ players) s =
     s\<lparr>playersInRoom := players, isConnected := True\<rparr>"
| "room_created_listener _ s = s"

fun room_joined_listener :: "ws_message \<Rightarrow> store \<Rightarrow> store" where
  "room_joined_listener (room_joined _ players) s =
     s\<lparr>playersInRoom := players, isConnected := True\<rparr>"
| "room_joined_listener _ s = s"

fun player_joined_listener :: "ws_message \<Rightarrow> store \<Rightarrow> store" where
  "player_joined_listener (player_joined _ players) s = s\<lparr>playersInRoom := players\<rparr>"
| "player_joined_listener _ s = s"

fun game_started_listener :: "ws_message \<Rightarrow> store \<Rightarrow> store" where
  "game_started_listener (game_started _ _) s =
     s\<lparr>gameStatus := ''ongoing'', currentPlayer := Some SymX\<rparr>"
| "game_started_listener _ s = s"

fun move_made_listener :: "ws_message \<Rightarrow> store \<Rightarrow> store" where
  "move_made_listener (move_made _ _ _ symb b w st) s =
     s\<lparr>board := b, winner := w, gameStatus := st,
       currentPlayer := (if symb = SymX then Some SymO else Some SymX)\<rparr>"
| "move_made_listener _ s = s"

fun listener_body :: "listener \<Rightarrow> ws_message \<Rightarrow> store \<Rightarrow> store" where
  "listener_body on_room_created = room_created_listener"
| "listener_body on_room_joined = room_joined_listener"
| "listener_body on_player_joined = player_joined_listener"
| "listener_body on_game_started = game_started_listener"
| "listener_body on_move_made = move_made_listener"

text \<open>
  \<^verbatim>\<open>handleMessage\<close> of the store's socket object: the listeners registered for the
  tag run in registration order.
\<close>

definition handleMessage :: "store \<Rightarrow> ws_message \<Rightarrow> store" where
  "handleMessage s m =
     (case ws s of
        None \<Rightarrow> s
      | Some g \<Rightarrow>
          (case map_of (listeners g) (type_tag m) of
             None \<Rightarrow> s
           | Some cs \<Rightarrow> fold (\<lambda>c. listener_body c m) cs s))"

text \<open>\<^verbatim>\<open>onmessage\<close>: a frame that does not parse (\<open>None\<close>) is logged and dropped.\<close>

definition onmessage :: "store \<Rightarrow> ws_message option \<Rightarrow> store" where
  "onmessage s frame = (case frame of None \<Rightarrow> s | Some m \<Rightarrow> handleMessage s m)"

text \<open>
  \<^verbatim>\<open>connectWebSocket()\<close> up to the pending promise: the previous socket object is
  disconnected, a new one gets the five listeners and starts connecting.
\<close>

definition connectWebSocket :: "store \<Rightarrow> store \<times> effect list" where
  "connectWebSocket s =
     (let closing = (case ws s of Some g \<Rightarrow> snd (disconnect g) | None \<Rightarrow> []);
          g1 = on new_GameWebSocket ''room_created'' on_room_created;
          g2 = on g1 ''room_joined'' on_room_joined;
          g3 = on g2 ''player_joined'' on_player_joined;
          g4 = on g3 ''game_started'' on_game_started;
          g5 = on g4 ''move_made'' on_move_made
      in (s\<lparr>ws := Some (fst (connect g5)), isConnected := False\<rparr>,
          closing @ snd (connect g5)))"

text \<open>
  Transport events on the store's current socket object. After \<^verbatim>\<open>disconnect()\<close>
  an old object has no listeners left, so its later events cannot reach the store.
\<close>

definition transport_open :: "store \<Rightarrow> store" where
  "transport_open s = s\<lparr>ws := map_option onopen (ws s)\<rparr>"

definition transport_close :: "store \<Rightarrow> store \<times> effect list" where
  "transport_close s =
     (case ws s of
        None \<Rightarrow> (s, [])
      | Some g \<Rightarrow> (s\<lparr>ws := Some (fst (onclose g))\<rparr>, snd (onclose g)))"

definition transport_reconnect :: "store \<Rightarrow> store \<times> effect list" where
  "transport_reconnect s =
     (case ws s of
        None \<Rightarrow> (s, [])
      | Some g \<Rightarrow> (s\<lparr>ws := Some (fst (reconnect_timeout g))\<rparr>, snd (reconnect_timeout g)))"

definition createRoom :: "store \<Rightarrow> string \<Rightarrow> effect list" where
  "createRoom s gameId =
     (case ws s of
        Some g \<Rightarrow> if isConnected_ws g then send g (create_room gameId) else []
      | None \<Rightarrow> [])"

definition joinRoom :: "store \<Rightarrow> string \<Rightarrow> effect list" where
  "joinRoom s gameId =
     (case ws s of
        Some g \<Rightarrow> if isConnected_ws g then send g (join_room gameId) else []
      | None \<Rightarrow> [])"

text \<open>\<^verbatim>\<open>x || ''\<close> on a \<^verbatim>\<open>string | null\<close>.\<close>

definition or_empty :: "string option \<Rightarrow> string" where
  "or_empty x = (case x of None \<Rightarrow> [] | Some v \<Rightarrow> v)"

definition createGame ::
  "store \<Rightarrow> string \<Rightarrow> error + game \<Rightarrow> (error + game) \<times> store \<times> effect list" where
  "createGame s playerId reply =
     (case reply of
        Inl e \<Rightarrow> (Inl e, s, [HttpCreateGame playerId])
      | Inr g \<Rightarrow>
          (Inr g,
           s\<lparr>currentGame := Some g, playerXId := or_empty (player_x_id g),
             myPlayerId := playerId, mySymbol := Some SymX, gameStatus := status g\<rparr>,
           [HttpCreateGame playerId]))"


text \<open>
  \<^verbatim>\<open>loadGame(gameId, userId?)\<close>: two requests; when the second one fails the
  fields written after the first one stay written. \<open>userId = None\<close> is
  \<^verbatim>\<open>undefined\<close>; the empty string is falsy as well.
\<close>

definition loadGame ::
  "store \<Rightarrow> string \<Rightarrow> string option \<Rightarrow> error + game
     \<Rightarrow> error + (grid \<times> outcome option) \<Rightarrow> (error + game) \<times> store \<times> effect list" where
  "loadGame s gameId userId reply boardReply =
     (case reply of
        Inl e \<Rightarrow> (Inl e, s, [HttpGetGame gameId])
      | Inr g \<Rightarrow>
          (let s1 = s\<lparr>currentGame := Some g, playerXId := or_empty (player_x_id g),
                      playerOId := or_empty (player_o_id g), gameStatus := status g\<rparr>;
               s2 = (case userId of
                       None \<Rightarrow> s1
                     | Some u \<Rightarrow>
                         if u = [] then s1
                         else (let s1' = s1\<lparr>myPlayerId := u\<rparr>
                               in if player_x_id g = Some u then s1'\<lparr>mySymbol := Some SymX\<rparr>
                                  else if player_o_id g = Some u then s1'\<lparr>mySymbol := Some SymO\<rparr>
                                  else s1'))
           in case boardReply of
                Inl e \<Rightarrow> (Inl e, s2, [HttpGetGame gameId, HttpGetBoard gameId])
              | Inr (b, w) \<Rightarrow>
                  (Inr g, s2\<lparr>board := b, winner := w\<rparr>,
                   [HttpGetGame gameId, HttpGetBoard gameId])))"

section \<open>The board component\<close>

text \<open>
  A JavaScript array read: \<open>None\<close> is \<^verbatim>\<open>undefined\<close> (index out of range).
\<close>

definition js_index :: "'a list \<Rightarrow> int \<Rightarrow> 'a option" where
  "js_index xs i = (if 0 \<le> i \<and> i < int (length xs) then Some (xs ! nat i) else None)"

definition error_message :: "error \<Rightarrow> string" where
  "error_message e = (case e of Error m \<Rightarrow> m | TypeError m \<Rightarrow> m)"

text \<open>
  \<^verbatim>\<open>handleCellClick(row, col)\<close> of \<^verbatim>\<open>TicTacToeBoard.vue\<close>.
  \<^verbatim>\<open>board[row][col] !== null\<close> throws a TypeError when \<^verbatim>\<open>board[row]\<close> is
  undefined and is true when only the column is out of range.
\<close>

definition handleCellClick ::
  "store \<Rightarrow> int \<Rightarrow> int \<Rightarrow> error + move_response
     \<Rightarrow> (error + unit) \<times> store \<times> effect list" where
  "handleCellClick s row col reply =
     (if \<not> canMakeMove s then (Inr (), s, [])
      else
        (case js_index (board s) row of
           None \<Rightarrow> (Inl (TypeError ''Cannot read properties of undefined''), s, [])
         | Some r \<Rightarrow>
             (case js_index r col of
                None \<Rightarrow> (Inr (), s, [])
              | Some (Some _) \<Rightarrow> (Inr (), s, [])
              | Some None \<Rightarrow>
                  (case makeMove s row col reply of
                     (Inl e, s', effs) \<Rightarrow>
                       (Inr (), s',
                        effs @ [Alert (if error_message e = [] then ''Failed to make move''
                                       else error_message e)])
                   | (Inr _, s', effs) \<Rightarrow> (Inr (), s', effs)))))"

section \<open>The game view\<close>

text \<open>
  The state of \<^verbatim>\<open>GameView.vue\<close>: the store it shares, the route's game id and
  its own refs. \<^verbatim>\<open>retryInterval\<close> is the handle of \<^verbatim>\<open>window.setInterval\<close> or
  null; the code tests it for truthiness, so a handle \<open>0\<close> counts as no handle.
\<close>

record game_view =
  gameStore :: store
  gameId :: string
  error_ref :: "string option"
  loading :: bool
  retrying :: bool
  retryInterval :: "nat option"

definition truthy :: "nat option \<Rightarrow> bool" where
  "truthy h = (case h of None \<Rightarrow> False | Some n \<Rightarrow> n \<noteq> 0)"

text \<open>
  \<^verbatim>\<open>startRetrying\<close>; \<open>tid\<close> is the handle that \<^verbatim>\<open>window.setInterval\<close> returns.
\<close>

definition startRetrying :: "nat \<Rightarrow> game_view \<Rightarrow> game_view \<times> effect list" where
  "startRetrying tid v =
     (if truthy (retryInterval v) then (v, [])
      else (v\<lparr>retrying := True, retryInterval := Some tid\<rparr>, [SetInterval 3000]))"

definition stopRetrying :: "game_view \<Rightarrow> game_view \<times> effect list" where
  "stopRetrying v =
     (case retryInterval v of
        None \<Rightarrow> (v, [])
      | Some n \<Rightarrow>
          if n \<noteq> 0 then (v\<lparr>retryInterval := None, retrying := False\<rparr>, [ClearInterval n])
          else (v, []))"

text \<open>The room command for the local symbol, as each caller writes it out.\<close>

definition room_command :: "store \<Rightarrow> string \<Rightarrow> effect list" where
  "room_command s gid =
     (if mySymbol s = Some SymX then createRoom s gid
      else if mySymbol s = Some SymO then joinRoom s gid
      else [])"

text \<open>
  \<^verbatim>\<open>initializeGame\<close>. Its three awaits are answered by the arguments: the two
  replies of \<^verbatim>\<open>loadGame\<close> and whether the transport opened (\<open>True\<close>) or reported
  an error first (\<open>False\<close>, the promise rejects).

  In the fallback for an unknown symbol the line after \<^verbatim>\<open>gameStore.mySymbol = 'X'\<close>
  starts with a parenthesis and no semicolon separates the two, so they are one
  expression, \<^verbatim>\<open>gameStore.mySymbol = 'X'(gameStore).createRoom(gameId)\<close>. Calling
  the string throws a TypeError before anything is assigned or sent, and the
  \<^verbatim>\<open>catch\<close> stores its message (the wording is the engine's). The same holds for
  the \<^verbatim>\<open>'O'\<close> branch.
\<close>

definition initializeGame ::
  "game_view \<Rightarrow> string option \<Rightarrow> error + game \<Rightarrow> error + (grid \<times> outcome option) \<Rightarrow> bool
     \<Rightarrow> game_view \<times> effect list" where
  "initializeGame v userId reply boardReply opened =
     (case loadGame (gameStore v) (gameId v) userId reply boardReply of
        (Inl e, s1, effs1) \<Rightarrow>
          (v\<lparr>gameStore := s1, loading := False,
             error_ref := Some (if error_message e = [] then ''Failed to initialize game''
                                else error_message e)\<rparr>, effs1)
      | (Inr _, s1, effs1) \<Rightarrow>
          (let s2 = fst (connectWebSocket s1); effs2 = snd (connectWebSocket s1)
           in if \<not> opened
              then (v\<lparr>gameStore := s2, loading := False,
                      error_ref := Some ''Failed to initialize game''\<rparr>, effs1 @ effs2)
              else
                (let s3 = transport_open s2
                 in if mySymbol s3 = Some SymX
                    then (v\<lparr>gameStore := s3, loading := False, error_ref := None\<rparr>,
                          effs1 @ effs2 @ createRoom s3 (gameId v))
                    else if mySymbol s3 = Some SymO
                    then (v\<lparr>gameStore := s3, loading := False, error_ref := None\<rparr>,
                          effs1 @ effs2 @ joinRoom s3 (gameId v))
                    else if playerXId s3 = myPlayerId s3
                    then (v\<lparr>gameStore := s3, loading := False,
                            error_ref := Some (error_message (TypeError ''X is not a function''))\<rparr>,
                          effs1 @ effs2)
                    else if playerOId s3 = myPlayerId s3
                    then (v\<lparr>gameStore := s3, loading := False,
                            error_ref := Some (error_message (TypeError ''O is not a function''))\<rparr>,
                          effs1 @ effs2)
                    else (v\<lparr>gameStore := s3, loading := False, error_ref := None\<rparr>,
                          effs1 @ effs2))))"

text \<open>
  One run of the interval callback. When the store is not connected it awaits
  \<^verbatim>\<open>connectWebSocket()\<close>; \<open>opened\<close> answers that await, a rejection is caught and
  logged.
\<close>

definition tick :: "game_view \<Rightarrow> bool \<Rightarrow> game_view \<times> effect list" where
  "tick v opened =
     (let (s1, effs1) =
            (if \<not> isConnected (gameStore v)
             then (let s' = fst (connectWebSocket (gameStore v))
                   in (if opened then transport_open s' else s',
                       snd (connectWebSocket (gameStore v))))
             else (gameStore v, []));
          v1 = v\<lparr>gameStore := s1\<rparr>
      in if isConnected s1
         then (let effs2 = (if gameId v \<noteq> [] then room_command s1 (gameId v) else [])
               in if playersInRoom s1 \<ge> 2
                  then (fst (stopRetrying v1), effs1 @ effs2 @ snd (stopRetrying v1))
                  else (v1, effs1 @ effs2))
         else (v1, effs1))"

text \<open>
  The watcher on \<^verbatim>\<open>[isConnected, playersInRoom]\<close>. It is registered without
  \<^verbatim>\<open>immediate\<close>, so its callback runs only after one of the two values has
  changed.
\<close>

definition watch_callback :: "nat \<Rightarrow> game_view \<Rightarrow> game_view \<times> effect list" where
  "watch_callback tid v =
     (if \<not> isConnected (gameStore v) \<or> playersInRoom (gameStore v) < 2
      then startRetrying tid v else stopRetrying v)"

definition watch_flush :: "nat \<Rightarrow> store \<Rightarrow> game_view \<Rightarrow> game_view \<times> effect list" where
  "watch_flush tid prev v =
     (if isConnected prev = isConnected (gameStore v)
         \<and> playersInRoom prev = playersInRoom (gameStore v)
      then (v, []) else watch_callback tid v)"

text \<open>
  The events of a mounted view, each run to completion and followed by the watcher:
  a frame on the socket, the socket closing, the reconnect timer firing, the socket
  opening after such a reconnect (nothing awaits that promise), an interval tick,
  and \<^verbatim>\<open>initializeGame\<close> run by \<^verbatim>\<open>onMounted\<close>.
\<close>

datatype event =
    Frame "ws_message option"
  | TransportClose
  | ReconnectTimeout
  | TransportOpen
  | Tick bool
  | Mounted "string option" "error + game" "error + (grid \<times> outcome option)" bool

definition handle_event :: "event \<Rightarrow> game_view \<Rightarrow> game_view \<times> effect list" where
  "handle_event ev v =
     (case ev of
        Frame f \<Rightarrow> (v\<lparr>gameStore := onmessage (gameStore v) f\<rparr>, [])
      | TransportClose \<Rightarrow>
          (v\<lparr>gameStore := fst (transport_close (gameStore v))\<rparr>,
           snd (transport_close (gameStore v)))
      | ReconnectTimeout \<Rightarrow>
          (v\<lparr>gameStore := fst (transport_reconnect (gameStore v))\<rparr>,
           snd (transport_reconnect (gameStore v)))
      | TransportOpen \<Rightarrow> (v\<lparr>gameStore := transport_open (gameStore v)\<rparr>, [])
      | Tick opened \<Rightarrow> (if truthy (retryInterval v) then tick v opened else (v, []))
      | Mounted userId reply boardReply opened \<Rightarrow>
          initializeGame v userId reply boardReply opened)"

definition step :: "nat \<Rightarrow> event \<Rightarrow> game_view \<Rightarrow> game_view \<times> effect list" where
  "step tid ev v =
     (let (v1, effs1) = handle_event ev v;
          (v2, effs2) = watch_flush tid (gameStore v) v1
      in (v2, effs1 @ effs2))"

fun run :: "nat \<Rightarrow> event list \<Rightarrow> game_view \<Rightarrow> game_view \<times> effect list" where
  "run tid [] v = (v, [])"
| "run tid (ev # evs) v =
     (let (v1, effs1) = step tid ev v;
          (v2, effs2) = run tid evs v1
      in (v2, effs1 @ effs2))"

section \<open>Reconnection episodes and supervision\<close>

text \<open>
  A disconnection episode: the transport closes, \<^verbatim>\<open>onclose\<close> runs; if it set a
  timer, the timer fires and \<^verbatim>\<open>connect()\<close> makes a new transport, which fails
  and closes in turn. \<open>k\<close> bounds how many transports fail in a row; without a
  timer there is no transport left that could close.
\<close>

fun reconnect_episode :: "nat \<Rightarrow> game_web_socket \<Rightarrow> game_web_socket \<times> effect list" where
  "reconnect_episode 0 g = (g, [])"
| "reconnect_episode (Suc k) g =
     (let (g1, effs1) = onclose g
      in if effs1 = [] then (g1, [])
         else (let (g2, effs2) = reconnect_timeout g1;
                   (g3, effs3) = reconnect_episode k g2
               in (g3, effs1 @ effs2 @ effs3)))"

text \<open>The delays of the timers set, and the room commands sent, in a trace.\<close>

fun timeouts :: "effect list \<Rightarrow> nat list" where
  "timeouts [] = []"
| "timeouts (SetTimeout d # es) = d # timeouts es"
| "timeouts (_ # es) = timeouts es"

fun room_commands :: "effect list \<Rightarrow> ws_message list" where
  "room_commands [] = []"
| "room_commands (WsSend (create_room r) # es) = create_room r # room_commands es"
| "room_commands (WsSend (join_room r) # es) = join_room r # room_commands es"
| "room_commands (_ # es) = room_commands es"

definition supervisor_active :: "game_view \<Rightarrow> bool" where
  "supervisor_active v = truthy (retryInterval v)"

definition needs_retry :: "game_view \<Rightarrow> bool" where
  "needs_retry v = (\<not> isConnected (gameStore v) \<or> playersInRoom (gameStore v) < 2)"

definition watched :: "game_view \<Rightarrow> bool \<times> int" where
  "watched v = (isConnected (gameStore v), playersInRoom (gameStore v))"

section \<open>The turn gate as the specification words it\<close>

text \<open>
  These two definitions follow the specification, not the code: the local turn is
  the plain equality of the turn symbol and the local symbol.
\<close>

definition isLocalTurn_spec :: "store \<Rightarrow> bool" where
  "isLocalTurn_spec s = (currentPlayer s = mySymbol s)"

definition canSubmitMove_spec :: "store \<Rightarrow> bool" where
  "canSubmitMove_spec s =
     (gameStatus s = ''ongoing'' \<and> isLocalTurn_spec s \<and> winner s = None)"

section \<open>Concrete sessions\<close>

definition game_g1 :: game where
  "game_g1 = \<lparr>id_game = ''g1'', player_x_id = Some ''alice'', player_o_id = Some ''bob'',
     status = ''ongoing'', created_at = ''2024-01-01''\<rparr>"

text \<open>
  Alice plays X in an ongoing game, it is her turn, cell (0,0) is taken and a move
  at (0,2) completes her top row.
\<close>

definition alice_store :: store where
  "alice_store = initial_store\<lparr>currentGame := Some game_g1,
     board := [[Some SymX, Some SymX, None], [Some SymO, Some SymO, None],
               [None, None, None]],
     currentPlayer := Some SymX, gameStatus := ''ongoing'', playerXId := ''alice'',
     playerOId := ''bob'', myPlayerId := ''alice'', mySymbol := Some SymX\<rparr>"

text \<open>Bob plays O in the same position: it is not his turn.\<close>

definition bob_store :: store where
  "bob_store = alice_store\<lparr>myPlayerId := ''bob'', mySymbol := Some SymO\<rparr>"

text \<open>
  Alice's move at (0,2) as the authority answers it: the top row is complete, the
  game is finished and there is no next turn.
\<close>

definition winning_response :: move_response where
  "winning_response = \<lparr>message = ''Move made'', move_id = ''m5'', position = ''0,2'',
     symbol_of = SymX,
     board = [[Some SymX, Some SymX, Some SymX], [Some SymO, Some SymO, None],
              [None, None, None]],
     winner = Some WinX, game_status = ''finished'', next_turn = None\<rparr>"

text \<open>The same game as the create request returns it, and after Alice joined it herself.\<close>

definition game_g1_waiting :: game where
  "game_g1_waiting = game_g1\<lparr>player_o_id := None, status := ''waiting''\<rparr>"


text \<open>
  The game view as it is set up for Alice, who has just created the game from the
  home view; \<open>7\<close> is the interval handle the browser hands out in these runs.
\<close>

definition view0 :: game_view where
  "view0 = \<lparr>gameStore = fst (snd (createGame initial_store ''alice'' (Inr game_g1_waiting))),
     gameId = ''g1'', error_ref = None, loading = True, retrying = False,
     retryInterval = None\<rparr>"

text \<open>
  Mounting with the server reachable, the room confirmed with one player, the second
  player joining, and the game starting.
\<close>

definition scenario_B :: "event list" where
  "scenario_B =
     [Mounted (Some ''alice'') (Inr game_g1_waiting) (Inr (empty_board, None)) True,
      Frame (Some (room_created ''g1'' 1)),
      Frame (Some (player_joined ''g1'' 2)),
      Frame (Some (game_started ''g1'' ''ongoing''))]"

definition view_mounted :: game_view where
  "view_mounted =
     fst (step 7 (Mounted (Some ''alice'') (Inr game_g1_waiting) (Inr (empty_board, None)) True)
            view0)"

definition view_waiting :: game_view where
  "view_waiting =
     fst (run 7 [Mounted (Some ''alice'') (Inr game_g1_waiting) (Inr (empty_board, None)) True,
                 Frame (Some (room_created ''g1'' 1))] view0)"

definition view_playing :: game_view where
  "view_playing = fst (run 7 scenario_B view0)"

text \<open>The transport drops, the first reconnect timer fires, the new transport opens.\<close>

definition drop_and_reconnect :: "event list" where
  "drop_and_reconnect = [TransportClose, ReconnectTimeout, TransportOpen]"

text \<open>Mounting while the server cannot be reached: the first connect is rejected.\<close>

definition view_unreachable :: game_view where
  "view_unreachable =
     fst (step 7 (Mounted (Some ''alice'') (Inr game_g1_waiting) (Inr (empty_board, None)) False)
            view0)"


text \<open>
  A response that accepts Alice's move at (2,2) in the running game and names X as
  the next turn again, and the response to the move she then makes at (2,0).
\<close>

definition repeat_response :: move_response where
  "repeat_response = \<lparr>message = ''Move made'', move_id = ''m5'', position = ''2,2'',
     symbol_of = SymX,
     board = [[Some SymX, Some SymX, None], [Some SymO, Some SymO, None],
              [None, None, Some SymX]],
     winner = None, game_status = ''ongoing'', next_turn = Some SymX\<rparr>"

definition second_response :: move_response where
  "second_response = \<lparr>message = ''Move made'', move_id = ''m6'', position = ''2,0'',
     symbol_of = SymX,
     board = [[Some SymX, Some SymX, None], [Some SymO, Some SymO, None],
              [Some SymX, None, Some SymX]],
     winner = None, game_status = ''ongoing'', next_turn = Some SymO\<rparr>"

text \<open>
  The listener table as \<^verbatim>\<open>connectWebSocket\<close> builds it, and the stores whose socket
  object carries it: every store from \<^verbatim>\<open>connectWebSocket\<close> on, until \<^verbatim>\<open>reset\<close>.
\<close>

definition store_listeners :: "(string \<times> listener list) list" where
  "store_listeners =
     [(''room_created'', [on_room_created]), (''room_joined'', [on_room_joined]),
      (''player_joined'', [on_player_joined]), (''game_started'', [on_game_started]),
      (''move_made'', [on_move_made])]"

definition listening :: "store \<Rightarrow> bool" where
  "listening s = (case ws s of None \<Rightarrow> False | Some g \<Rightarrow> listeners g = store_listeners)"

text \<open>The events that can reach a view whose socket has joined no room.\<close>

fun quiet_event :: "event \<Rightarrow> bool" where
  "quiet_event (Frame _) = False"
| "quiet_event (Mounted _ _ _ _) = False"
| "quiet_event _ = True"

section \<open>Verified properties\<close>

lemma makeMove_blocked:
  "\<not> canMakeMove s \<Longrightarrow> \<exists>e. makeMove s row col reply = (Inl e, s, [])"
  by (simp add: makeMove_def split: option.splits)

lemma handleCellClick_blocked:
  "\<not> canMakeMove s \<Longrightarrow> handleCellClick s row col reply = (Inr (), s, [])"
  by (simp add: handleCellClick_def)

lemma handleCellClick_occupied:
  "js_index (board s) row = Some r \<Longrightarrow> js_index r col = Some (Some c)
     \<Longrightarrow> handleCellClick s row col reply = (Inr (), s, [])"
  by (simp add: handleCellClick_def)

lemma alice_canMakeMove: "canMakeMove alice_store"
  by (simp add: canMakeMove_def isMyTurn_def alice_store_def initial_store_def)

lemma bob_cannot_move: "\<not> canMakeMove bob_store"
  by (simp add: canMakeMove_def isMyTurn_def bob_store_def alice_store_def
      initial_store_def)

lemma alice_row0: "js_index (board alice_store) 0 = Some [Some SymX, Some SymX, None]"
  by (simp add: js_index_def alice_store_def initial_store_def)

lemma alice_cell00: "js_index [Some SymX, Some SymX, None] 0 = Some (Some SymX)"
  by (simp add: js_index_def)

lemma string_of_int_0: "string_of_int 0 = ''0''"
  by (simp add: string_of_int_def)

lemma alice_makeMove_rejected:
  "makeMove alice_store 0 0 (Inl (Error ''Position already taken'')) =
     (Inl (Error ''Position already taken''), alice_store,
      [HttpMakeMove ''g1'' ''alice'' ''0,0''])"
  using alice_canMakeMove
  by (simp add: makeMove_def string_of_int_0 alice_store_def initial_store_def
      game_g1_def)

text \<open>
  C1, as stated, fails: with the turn gate open, \<^verbatim>\<open>makeMove\<close> on the occupied cell
  (0,0) sends the move request; the store does not look at the board.
\<close>

theorem makeMove_occupied_cell_counterexample:
  "canMakeMove alice_store
   \<and> js_index (board alice_store) 0 = Some [Some SymX, Some SymX, None]
   \<and> js_index [Some SymX, Some SymX, None] 0 = Some (Some SymX)
   \<and> snd (snd (makeMove alice_store 0 0 (Inl (Error ''Position already taken''))))
       = [HttpMakeMove ''g1'' ''alice'' ''0,0'']"
  by (simp add: alice_canMakeMove alice_row0 alice_cell00 alice_makeMove_rejected)

lemma makeMove_no_session:
  "currentGame s = None \<or> myPlayerId s = [] \<Longrightarrow>
     makeMove s row col reply = (Inl (Error ''No active game or player ID''), s, [])"
  by (auto simp: makeMove_def split: option.splits)

lemma makeMove_not_my_turn:
  "currentGame s \<noteq> None \<Longrightarrow> myPlayerId s \<noteq> [] \<Longrightarrow> \<not> canMakeMove s \<Longrightarrow>
     makeMove s row col reply = (Inl (Error ''It is not your turn''), s, [])"
  by (auto simp: makeMove_def split: option.splits)

lemma makeMove_posts:
  "currentGame s = Some g \<Longrightarrow> myPlayerId s \<noteq> [] \<Longrightarrow> canMakeMove s \<Longrightarrow>
     snd (snd (makeMove s row col reply))
       = [HttpMakeMove (id_game g) (myPlayerId s) (string_of_int row @ '','' @ string_of_int col)]"
  by (simp add: makeMove_def Let_def split: sum.splits)

lemma canMakeMove_ignores_board: "canMakeMove (s\<lparr>board := b\<rparr>) = canMakeMove s"
  by (simp add: canMakeMove_def isMyTurn_def)

lemma makeMove_ignores_board:
  "fst (makeMove (s\<lparr>board := b\<rparr>) row col reply) = fst (makeMove s row col reply)
   \<and> snd (snd (makeMove (s\<lparr>board := b\<rparr>) row col reply)) = snd (snd (makeMove s row col reply))"
  by (simp add: makeMove_def canMakeMove_ignores_board Let_def split: option.splits sum.splits)

lemma handleCellClick_forwards:
  "canMakeMove s \<Longrightarrow> js_index (board s) row = Some r \<Longrightarrow> js_index r col = Some None \<Longrightarrow>
     fst (snd (handleCellClick s row col reply)) = fst (snd (makeMove s row col reply))
     \<and> take (length (snd (snd (makeMove s row col reply))))
          (snd (snd (handleCellClick s row col reply))) = snd (snd (makeMove s row col reply))"
  by (simp add: handleCellClick_def split: prod.splits sum.splits)

text \<open>
  C1, amended: \<^verbatim>\<open>makeMove\<close> fails at once, with an error, the store unchanged and
  no request sent, whenever no game or no player id is set or \<^verbatim>\<open>canMakeMove\<close> is
  false; in every other case it posts the move, and neither its result nor its
  request depends on the board. The occupied cell is screened one level up:
  \<^verbatim>\<open>handleCellClick\<close> returns without calling \<^verbatim>\<open>makeMove\<close>, without a request
  and without an error, whenever \<^verbatim>\<open>canMakeMove\<close> is false or the clicked cell is
  not empty, and passes an empty cell on to \<^verbatim>\<open>makeMove\<close>.
\<close>

theorem makeMove_fails_fast:
  "(\<not> canMakeMove s \<longrightarrow> (\<exists>e. makeMove s row col reply = (Inl e, s, [])))
   \<and> (currentGame s = None \<or> myPlayerId s = [] \<longrightarrow>
        makeMove s row col reply = (Inl (Error ''No active game or player ID''), s, []))
   \<and> (currentGame s \<noteq> None \<and> myPlayerId s \<noteq> [] \<and> \<not> canMakeMove s \<longrightarrow>
        makeMove s row col reply = (Inl (Error ''It is not your turn''), s, []))
   \<and> (currentGame s = Some g \<and> myPlayerId s \<noteq> [] \<and> canMakeMove s \<longrightarrow>
        snd (snd (makeMove s row col reply))
          = [HttpMakeMove (id_game g) (myPlayerId s)
               (string_of_int row @ '','' @ string_of_int col)])
   \<and> fst (makeMove (s\<lparr>board := b\<rparr>) row col reply) = fst (makeMove s row col reply)
   \<and> snd (snd (makeMove (s\<lparr>board := b\<rparr>) row col reply)) = snd (snd (makeMove s row col reply))
   \<and> (\<not> canMakeMove s \<or> (\<exists>r c. js_index (board s) row = Some r \<and> js_index r col = Some (Some c))
        \<longrightarrow> handleCellClick s row col reply = (Inr (), s, []))
   \<and> (canMakeMove s \<and> (\<exists>r. js_index (board s) row = Some r \<and> js_index r col = Some None)
        \<longrightarrow> fst (snd (handleCellClick s row col reply)) = fst (snd (makeMove s row col reply))
            \<and> take (length (snd (snd (makeMove s row col reply))))
                 (snd (snd (handleCellClick s row col reply)))
               = snd (snd (makeMove s row col reply)))"
proof -
  have blocked: "\<not> canMakeMove s \<longrightarrow> (\<exists>e. makeMove s row col reply = (Inl e, s, []))"
    using makeMove_blocked by blast
  have click: "\<not> canMakeMove s
      \<or> (\<exists>r c. js_index (board s) row = Some r \<and> js_index r col = Some (Some c))
      \<longrightarrow> handleCellClick s row col reply = (Inr (), s, [])"
    using handleCellClick_blocked handleCellClick_occupied by blast
  have forward: "canMakeMove s \<and> (\<exists>r. js_index (board s) row = Some r \<and> js_index r col = Some None)
      \<longrightarrow> fst (snd (handleCellClick s row col reply)) = fst (snd (makeMove s row col reply))
          \<and> take (length (snd (snd (makeMove s row col reply))))
               (snd (snd (handleCellClick s row col reply)))
             = snd (snd (makeMove s row col reply))"
    using handleCellClick_forwards by blast
  show ?thesis
    using blocked click forward
    by (simp add: makeMove_no_session makeMove_not_my_turn makeMove_posts
        makeMove_ignores_board)
qed

lemma alice_session:
  "currentGame alice_store = Some game_g1 \<and> myPlayerId alice_store = ''alice''"
  by (simp add: alice_store_def initial_store_def)

lemma alice_row0_free:
  "js_index [Some SymX, Some SymX, None] 2 = Some None"
  by (simp add: js_index_def)

theorem makeMove_fails_fast_witness:
  "\<not> canMakeMove bob_store
   \<and> (\<exists>e. makeMove bob_store 1 2 (Inl (Error ''unused'')) = (Inl e, bob_store, []))
   \<and> currentGame initial_store = None
   \<and> makeMove initial_store 1 2 (Inl (Error ''unused''))
       = (Inl (Error ''No active game or player ID''), initial_store, [])
   \<and> myPlayerId (alice_store\<lparr>myPlayerId := []\<rparr>) = []
   \<and> makeMove (alice_store\<lparr>myPlayerId := []\<rparr>) 1 2 (Inl (Error ''unused''))
       = (Inl (Error ''No active game or player ID''), alice_store\<lparr>myPlayerId := []\<rparr>, [])
   \<and> currentGame bob_store \<noteq> None \<and> myPlayerId bob_store \<noteq> []
   \<and> makeMove bob_store 1 2 (Inl (Error ''unused''))
       = (Inl (Error ''It is not your turn''), bob_store, [])
   \<and> currentGame alice_store = Some game_g1 \<and> myPlayerId alice_store \<noteq> []
   \<and> canMakeMove alice_store
   \<and> snd (snd (makeMove alice_store 0 0 (Inl (Error ''unused''))))
       = [HttpMakeMove (id_game game_g1) (myPlayerId alice_store)
            (string_of_int 0 @ '','' @ string_of_int 0)]
   \<and> (\<exists>r c. js_index (board alice_store) 0 = Some r \<and> js_index r 0 = Some (Some c))
   \<and> handleCellClick alice_store 0 0 (Inl (Error ''unused'')) = (Inr (), alice_store, [])
   \<and> (\<exists>r. js_index (board alice_store) 0 = Some r \<and> js_index r 2 = Some None)
   \<and> fst (snd (handleCellClick alice_store 0 2 (Inl (Error ''unused''))))
       = fst (snd (makeMove alice_store 0 2 (Inl (Error ''unused''))))"
proof -
  have occupied: "\<exists>r c. js_index (board alice_store) 0 = Some r \<and> js_index r 0 = Some (Some c)"
    by (simp add: alice_row0 alice_cell00)
  have free: "\<exists>r. js_index (board alice_store) 0 = Some r \<and> js_index r 2 = Some None"
    by (simp add: alice_row0 alice_row0_free)
  have none: "currentGame initial_store = None"
    by (simp add: initial_store_def)
  have bob: "currentGame bob_store \<noteq> None \<and> myPlayerId bob_store \<noteq> []"
    by (simp add: bob_store_def alice_store_def initial_store_def)
  have alice: "currentGame alice_store = Some game_g1 \<and> myPlayerId alice_store \<noteq> []"
    by (simp add: alice_session)
  have anon: "myPlayerId (alice_store\<lparr>myPlayerId := []\<rparr>) = []"
    by simp
  note at_bob = makeMove_fails_fast [of bob_store 1 2 "Inl (Error ''unused'')"]
  note at_start = makeMove_fails_fast [of initial_store 1 2 "Inl (Error ''unused'')"]
  note at_anon =
    makeMove_fails_fast [of "alice_store\<lparr>myPlayerId := []\<rparr>" 1 2 "Inl (Error ''unused'')"]
  note at_taken = makeMove_fails_fast [of alice_store 0 0 "Inl (Error ''unused'')" game_g1]
  note at_free = makeMove_fails_fast [of alice_store 0 2 "Inl (Error ''unused'')"]
  have w1: "\<exists>e. makeMove bob_store 1 2 (Inl (Error ''unused'')) = (Inl e, bob_store, [])"
    using at_bob bob_cannot_move by blast
  have w2: "makeMove initial_store 1 2 (Inl (Error ''unused''))
       = (Inl (Error ''No active game or player ID''), initial_store, [])"
    using at_start none by blast
  have w3: "makeMove (alice_store\<lparr>myPlayerId := []\<rparr>) 1 2 (Inl (Error ''unused''))
       = (Inl (Error ''No active game or player ID''), alice_store\<lparr>myPlayerId := []\<rparr>, [])"
    using at_anon anon by blast
  have w4: "makeMove bob_store 1 2 (Inl (Error ''unused''))
       = (Inl (Error ''It is not your turn''), bob_store, [])"
    using at_bob bob bob_cannot_move by blast
  have w5: "snd (snd (makeMove alice_store 0 0 (Inl (Error ''unused''))))
       = [HttpMakeMove (id_game game_g1) (myPlayerId alice_store)
            (string_of_int 0 @ '','' @ string_of_int 0)]"
    using at_taken alice alice_canMakeMove by blast
  have w6: "handleCellClick alice_store 0 0 (Inl (Error ''unused'')) = (Inr (), alice_store, [])"
    using at_taken occupied by blast
  have w7: "fst (snd (handleCellClick alice_store 0 2 (Inl (Error ''unused''))))
       = fst (snd (makeMove alice_store 0 2 (Inl (Error ''unused''))))"
    using at_free free alice_canMakeMove by blast
  show ?thesis
    using bob_cannot_move alice_canMakeMove occupied free none bob alice anon
      w1 w2 w3 w4 w5 w6 w7
    by simp
qed

text \<open>
  C2: when \<^verbatim>\<open>makeMove\<close> fails, by one of its own checks or because the move
  request fails, the store afterwards is the store before: board, status, winner
  and turn are untouched.
\<close>

theorem makeMove_failure_keeps_state:
  assumes "fst (makeMove s row col reply) = Inl e"
  shows "fst (snd (makeMove s row col reply)) = s
         \<and> board (fst (snd (makeMove s row col reply))) = board s
         \<and> gameStatus (fst (snd (makeMove s row col reply))) = gameStatus s
         \<and> winner (fst (snd (makeMove s row col reply))) = winner s
         \<and> currentPlayer (fst (snd (makeMove s row col reply))) = currentPlayer s"
proof -
  have "fst (snd (makeMove s row col reply)) = s"
    using assms
    by (auto simp: makeMove_def Let_def split: option.splits if_splits sum.splits)
  then show ?thesis by simp
qed

theorem makeMove_failure_keeps_state_witness:
  "fst (makeMove alice_store 0 0 (Inl (Error ''Position already taken'')))
     = Inl (Error ''Position already taken'')
   \<and> board (fst (snd (makeMove alice_store 0 0 (Inl (Error ''Position already taken'')))))
     = board alice_store
   \<and> currentPlayer (fst (snd (makeMove alice_store 0 0 (Inl (Error ''Position already taken'')))))
     = currentPlayer alice_store"
proof -
  have failed: "fst (makeMove alice_store 0 0 (Inl (Error ''Position already taken'')))
      = Inl (Error ''Position already taken'')"
    by (simp add: alice_makeMove_rejected)
  show ?thesis
    using failed makeMove_failure_keeps_state [OF failed] by simp
qed

text \<open>
  C3, as stated, fails: in a store with status ongoing where neither the turn nor
  the local symbol is known, the specification's formula is true (null equals null)
  and \<^verbatim>\<open>canMakeMove\<close> is false. \<^verbatim>\<open>loadGame\<close> of an ongoing game without a user
  id produces such a store.
\<close>

theorem canMakeMove_spec_counterexample:
  "canSubmitMove_spec
     (fst (snd (loadGame initial_store ''g1'' None (Inr game_g1) (Inr (empty_board, None)))))
   \<and> \<not> canMakeMove
     (fst (snd (loadGame initial_store ''g1'' None (Inr game_g1) (Inr (empty_board, None)))))"
  by (simp add: loadGame_def canSubmitMove_spec_def isLocalTurn_spec_def canMakeMove_def
      isMyTurn_def initial_store_def game_g1_def)

text \<open>
  C3, amended: \<^verbatim>\<open>canMakeMove\<close> is the specification's formula together with the
  turn symbol being known; so it is false whenever the status is not ongoing, a
  winner is set, or the turn symbol differs from the local symbol.
\<close>

theorem canMakeMove_gate:
  "canMakeMove s = (canSubmitMove_spec s \<and> currentPlayer s \<noteq> None)
   \<and> isMyTurn s = (isLocalTurn_spec s \<and> currentPlayer s \<noteq> None)
   \<and> (gameStatus s \<noteq> ''ongoing'' \<or> winner s \<noteq> None \<or> currentPlayer s \<noteq> mySymbol s
        \<longrightarrow> \<not> canMakeMove s)"
  by (auto simp: canSubmitMove_spec_def isLocalTurn_spec_def canMakeMove_def isMyTurn_def)

theorem canMakeMove_gate_witness:
  "currentPlayer bob_store \<noteq> mySymbol bob_store \<and> \<not> canMakeMove bob_store"
proof -
  have differ: "currentPlayer bob_store \<noteq> mySymbol bob_store"
    by (simp add: bob_store_def alice_store_def initial_store_def)
  show ?thesis
    using differ canMakeMove_gate [of bob_store] by blast
qed

text \<open>
  C10: \<^verbatim>\<open>reset()\<close> leaves exactly the initial store, whatever the store was, and
  closes the transport of a socket object that still holds one.
\<close>

theorem reset_restores_initial:
  "fst (reset s) = initial_store
   \<and> currentGame (fst (reset s)) = None
   \<and> board (fst (reset s)) = [[None, None, None], [None, None, None], [None, None, None]]
   \<and> currentPlayer (fst (reset s)) = None
   \<and> winner (fst (reset s)) = None
   \<and> mySymbol (fst (reset s)) = None
   \<and> gameStatus (fst (reset s)) = ''waiting''
   \<and> playerXId (fst (reset s)) = [] \<and> playerOId (fst (reset s)) = []
   \<and> myPlayerId (fst (reset s)) = []
   \<and> playersInRoom (fst (reset s)) = 0
   \<and> isConnected (fst (reset s)) = False
   \<and> ws (fst (reset s)) = None
   \<and> snd (reset s) =
       (case ws s of
          None \<Rightarrow> []
        | Some g \<Rightarrow> (case ws_handle g of None \<Rightarrow> [] | Some _ \<Rightarrow> [WsClose]))"
  by (auto simp: reset_def initial_store_def empty_board_def disconnect_def Let_def
      split: option.splits)

lemma timeouts_append: "timeouts (xs @ ys) = timeouts xs @ timeouts ys"
  by (induction xs rule: timeouts.induct) auto

lemma onclose_below_cap:
  "reconnectAttempts g < maxReconnectAttempts \<Longrightarrow>
     onclose g = (g\<lparr>ws_handle := None, reconnectAttempts := Suc (reconnectAttempts g)\<rparr>,
                  [SetTimeout (reconnectDelay * Suc (reconnectAttempts g))])"
  by (simp add: onclose_def attemptReconnect_def Let_def)

lemma onclose_at_cap:
  "\<not> reconnectAttempts g < maxReconnectAttempts \<Longrightarrow> onclose g = (g\<lparr>ws_handle := None\<rparr>, [])"
  by (simp add: onclose_def attemptReconnect_def)

lemma episode_timeouts:
  "timeouts (snd (reconnect_episode k g)) =
     map (\<lambda>i. reconnectDelay * i)
       [Suc (reconnectAttempts g) ..< Suc (min (reconnectAttempts g + k) maxReconnectAttempts)]"
proof (induction k arbitrary: g)
  case 0
  then show ?case by simp
next
  case (Suc k)
  show ?case
  proof (cases "reconnectAttempts g < maxReconnectAttempts")
    case True
    let ?g1 = "g\<lparr>ws_handle := None, reconnectAttempts := Suc (reconnectAttempts g)\<rparr>"
    let ?g2 = "fst (reconnect_timeout ?g1)"
    have a2: "reconnectAttempts ?g2 = Suc (reconnectAttempts g)"
      by (simp add: reconnect_timeout_def connect_def)
    have unfold: "timeouts (snd (reconnect_episode (Suc k) g)) =
        reconnectDelay * Suc (reconnectAttempts g) # timeouts (snd (reconnect_episode k ?g2))"
      using True
      by (simp add: onclose_below_cap timeouts_append reconnect_timeout_def connect_def
          split: prod.splits)
    have ih: "timeouts (snd (reconnect_episode k ?g2)) =
        map (\<lambda>i. reconnectDelay * i)
          [Suc (Suc (reconnectAttempts g)) ..< Suc (min (reconnectAttempts g + Suc k) maxReconnectAttempts)]"
      using Suc.IH [of ?g2] a2 by simp
    have "Suc (reconnectAttempts g) < Suc (min (reconnectAttempts g + Suc k) maxReconnectAttempts)"
      using True by simp
    then have "[Suc (reconnectAttempts g) ..< Suc (min (reconnectAttempts g + Suc k) maxReconnectAttempts)]
        = Suc (reconnectAttempts g)
          # [Suc (Suc (reconnectAttempts g)) ..< Suc (min (reconnectAttempts g + Suc k) maxReconnectAttempts)]"
      by (rule upt_conv_Cons)
    then show ?thesis
      using unfold ih by simp
  next
    case False
    then show ?thesis by (simp add: onclose_at_cap)
  qed
qed

lemma connectWebSocket_fresh:
  "\<exists>g. ws (fst (connectWebSocket s)) = Some g \<and> reconnectAttempts g = 0"
  by (simp add: connectWebSocket_def connect_def new_GameWebSocket_def Let_def)

lemma reconnect_timeout_connects:
  "reconnect_timeout g = (g\<lparr>ws_handle := Some CONNECTING\<rparr>, [NewWebSocket])"
  by (simp add: reconnect_timeout_def connect_def)

lemma episode_effects:
  "snd (reconnect_episode k g) =
     concat (map (\<lambda>i. [SetTimeout (reconnectDelay * i), NewWebSocket])
       [Suc (reconnectAttempts g) ..< Suc (min (reconnectAttempts g + k) maxReconnectAttempts)])"
proof (induction k arbitrary: g)
  case 0
  then show ?case by simp
next
  case (Suc k)
  show ?case
  proof (cases "reconnectAttempts g < maxReconnectAttempts")
    case True
    let ?g1 = "g\<lparr>ws_handle := None, reconnectAttempts := Suc (reconnectAttempts g)\<rparr>"
    let ?g2 = "?g1\<lparr>ws_handle := Some CONNECTING\<rparr>"
    have unfold: "snd (reconnect_episode (Suc k) g) =
        [SetTimeout (reconnectDelay * Suc (reconnectAttempts g)), NewWebSocket]
          @ snd (reconnect_episode k ?g2)"
      using True
      by (simp add: onclose_below_cap reconnect_timeout_connects split: prod.splits)
    have ih: "snd (reconnect_episode k ?g2) =
        concat (map (\<lambda>i. [SetTimeout (reconnectDelay * i), NewWebSocket])
          [Suc (Suc (reconnectAttempts g))
             ..< Suc (min (reconnectAttempts g + Suc k) maxReconnectAttempts)])"
      using Suc.IH [of ?g2] by simp
    have "Suc (reconnectAttempts g)
        < Suc (min (reconnectAttempts g + Suc k) maxReconnectAttempts)"
      using True by simp
    then have "[Suc (reconnectAttempts g)
          ..< Suc (min (reconnectAttempts g + Suc k) maxReconnectAttempts)]
        = Suc (reconnectAttempts g)
          # [Suc (Suc (reconnectAttempts g))
               ..< Suc (min (reconnectAttempts g + Suc k) maxReconnectAttempts)]"
      by (rule upt_conv_Cons)
    then show ?thesis
      using unfold ih by simp
  next
    case False
    then show ?thesis by (simp add: onclose_at_cap)
  qed
qed

text \<open>
  C6: each transport close below the cap sets one timer whose delay is 1000 times
  the new attempt count; at the cap of 5 a close sets none. The timer's callback
  calls \<^verbatim>\<open>connect()\<close>, which makes a new transport. So a run of failing
  reconnects is exactly: timer 1000, new transport, timer 2000, new transport, ...,
  with at most five timers, and nothing more after the fifth. \<^verbatim>\<open>connect()\<close>
  itself is not gated by the counter, and the store's \<^verbatim>\<open>connectWebSocket()\<close>
  starts a new object whose counter is 0.
\<close>

theorem reconnect_backoff:
  "(reconnectAttempts g < 5 \<longrightarrow>
      onclose g = (g\<lparr>ws_handle := None, reconnectAttempts := Suc (reconnectAttempts g)\<rparr>,
                   [SetTimeout (1000 * Suc (reconnectAttempts g))]))
   \<and> (5 \<le> reconnectAttempts g \<longrightarrow> onclose g = (g\<lparr>ws_handle := None\<rparr>, []))
   \<and> reconnect_timeout g = (g\<lparr>ws_handle := Some CONNECTING\<rparr>, [NewWebSocket])
   \<and> snd (reconnect_episode k g) =
       concat (map (\<lambda>i. [SetTimeout (1000 * i), NewWebSocket])
         [Suc (reconnectAttempts g) ..< Suc (min (reconnectAttempts g + k) 5)])
   \<and> timeouts (snd (reconnect_episode k g)) =
       map (\<lambda>i. 1000 * i) [Suc (reconnectAttempts g) ..< Suc (min (reconnectAttempts g + k) 5)]
   \<and> length (timeouts (snd (reconnect_episode k g))) \<le> 5
   \<and> snd (connect g) = [NewWebSocket]
   \<and> (\<exists>g'. ws (fst (connectWebSocket s)) = Some g' \<and> reconnectAttempts g' = 0)"
proof -
  have m: "maxReconnectAttempts = 5" and d: "reconnectDelay = 1000"
    by (simp_all add: maxReconnectAttempts_def reconnectDelay_def)
  have "length (timeouts (snd (reconnect_episode k g))) \<le> 5"
    by (simp add: episode_timeouts m; arith)
  then show ?thesis
    using onclose_below_cap [of g] onclose_at_cap [of g] episode_timeouts [of k g]
      episode_effects [of k g] reconnect_timeout_connects [of g] connectWebSocket_fresh [of s]
    by (simp add: m d connect_def)
qed

theorem reconnect_backoff_witness:
  "reconnectAttempts new_GameWebSocket < 5
   \<and> snd (onclose new_GameWebSocket) = [SetTimeout 1000]
   \<and> 5 \<le> reconnectAttempts (new_GameWebSocket\<lparr>reconnectAttempts := 5\<rparr>)
   \<and> snd (onclose (new_GameWebSocket\<lparr>reconnectAttempts := 5\<rparr>)) = []
   \<and> snd (reconnect_episode 8 new_GameWebSocket)
       = [SetTimeout 1000, NewWebSocket, SetTimeout 2000, NewWebSocket,
          SetTimeout 3000, NewWebSocket, SetTimeout 4000, NewWebSocket,
          SetTimeout 5000, NewWebSocket]
   \<and> timeouts (snd (reconnect_episode 8 new_GameWebSocket)) = [1000, 2000, 3000, 4000, 5000]"
proof -
  have a0: "reconnectAttempts new_GameWebSocket = 0"
    by (simp add: new_GameWebSocket_def)
  have a5: "reconnectAttempts (new_GameWebSocket\<lparr>reconnectAttempts := 5\<rparr>) = 5"
    by simp
  have l: "[Suc 0 ..< 6] = [1, 2, 3, 4, 5]"
    by (simp add: upt_conv_Cons)
  show ?thesis
    using reconnect_backoff [of new_GameWebSocket 8 initial_store]
      reconnect_backoff [of "new_GameWebSocket\<lparr>reconnectAttempts := 5\<rparr>" 0 initial_store]
    by (simp add: a0 l)
qed

text \<open>
  C9: \<^verbatim>\<open>onopen\<close> sets the attempt counter to 0, so after any successful open a new
  run of closes again gets up to five automatic attempts, with delays starting at
  1000 again.
\<close>

theorem onopen_resets_attempts:
  "reconnectAttempts (onopen g) = 0
   \<and> timeouts (snd (reconnect_episode k (onopen g))) = map (\<lambda>i. 1000 * i) [1 ..< Suc (min k 5)]
   \<and> length (timeouts (snd (reconnect_episode k (onopen g)))) = min k 5"
  by (simp add: episode_timeouts onopen_def maxReconnectAttempts_def reconnectDelay_def)

lemma listening_connectWebSocket: "listening (fst (connectWebSocket s))"
  by (simp add: listening_def store_listeners_def connectWebSocket_def connect_def
      new_GameWebSocket_def Let_def)

lemma listener_keeps_socket: "ws (listener_body c m s) = ws s"
  by (cases c; cases m) simp_all

lemma fold_listeners_keeps_socket: "ws (fold (\<lambda>c. listener_body c m) cs s) = ws s"
  by (induction cs arbitrary: s) (simp_all add: listener_keeps_socket)

lemma onmessage_keeps_socket: "ws (onmessage s f) = ws s"
  by (simp add: onmessage_def handleMessage_def fold_listeners_keeps_socket
      split: option.splits)

lemma loadGame_keeps_socket: "ws (fst (snd (loadGame s gid u reply breply))) = ws s"
  by (simp add: loadGame_def Let_def split: sum.splits option.splits prod.splits)

lemma transport_keeps_listening:
  "listening s \<Longrightarrow> listening (transport_open s)
     \<and> listening (fst (transport_close s)) \<and> listening (fst (transport_reconnect s))"
  by (auto simp: listening_def transport_open_def transport_close_def transport_reconnect_def
      onopen_def onclose_def attemptReconnect_def reconnect_timeout_def connect_def Let_def
      split: option.splits)

lemma initializeGame_keeps_listening:
  "listening (gameStore v) \<Longrightarrow>
     listening (gameStore (fst (initializeGame v u reply breply opened)))"
proof -
  assume l: "listening (gameStore v)"
  let ?s1 = "fst (snd (loadGame (gameStore v) (gameId v) u reply breply))"
  have l1: "listening ?s1"
    using l by (simp add: listening_def loadGame_keeps_socket)
  have l2: "listening (fst (connectWebSocket ?s1))"
    by (rule listening_connectWebSocket)
  have l3: "listening (transport_open (fst (connectWebSocket ?s1)))"
    using l2 transport_keeps_listening by blast
  show ?thesis
    using l1 l2 l3
    by (auto simp: initializeGame_def Let_def split: prod.splits sum.splits)
qed

lemma tick_keeps_listening:
  "listening (gameStore v) \<Longrightarrow> listening (gameStore (fst (tick v opened)))"
proof -
  assume l: "listening (gameStore v)"
  have l2: "listening (fst (connectWebSocket (gameStore v)))"
    by (rule listening_connectWebSocket)
  have l3: "listening (transport_open (fst (connectWebSocket (gameStore v))))"
    using l2 transport_keeps_listening by blast
  show ?thesis
    using l l2 l3
    by (auto simp: tick_def Let_def stopRetrying_def split: option.splits)
qed

lemma watch_flush_keeps_store: "gameStore (fst (watch_flush tid prev v)) = gameStore v"
  by (simp add: watch_flush_def watch_callback_def startRetrying_def stopRetrying_def
      split: option.splits)

lemma step_store: "gameStore (fst (step tid ev v)) = gameStore (fst (handle_event ev v))"
  by (simp add: step_def watch_flush_keeps_store split: prod.splits)
    (metis fst_conv watch_flush_keeps_store)

lemma step_keeps_listening:
  "listening (gameStore v) \<Longrightarrow> listening (gameStore (fst (step tid ev v)))"
proof -
  assume l: "listening (gameStore v)"
  have "listening (gameStore (fst (handle_event ev v)))"
  proof (cases ev)
    case (Frame f)
    then show ?thesis
      using l by (simp add: handle_event_def listening_def onmessage_keeps_socket)
  next
    case TransportClose
    then show ?thesis
      using l transport_keeps_listening [of "gameStore v"] by (simp add: handle_event_def)
  next
    case ReconnectTimeout
    then show ?thesis
      using l transport_keeps_listening [of "gameStore v"] by (simp add: handle_event_def)
  next
    case TransportOpen
    then show ?thesis
      using l transport_keeps_listening [of "gameStore v"] by (simp add: handle_event_def)
  next
    case (Tick opened)
    then show ?thesis
      using l tick_keeps_listening [of v opened] by (simp add: handle_event_def)
  next
    case (Mounted u reply breply opened)
    then show ?thesis
      using l initializeGame_keeps_listening [of v u reply breply opened]
      by (simp add: handle_event_def)
  qed
  then show ?thesis by (simp add: step_store)
qed

lemma onmessage_game_started:
  "listening s \<Longrightarrow>
     onmessage s (Some (game_started gid st))
       = s\<lparr>gameStatus := ''ongoing'', currentPlayer := Some SymX\<rparr>"
  by (auto simp: listening_def store_listeners_def onmessage_def handleMessage_def
      split: option.splits)

lemma onmessage_move_made:
  "listening s \<Longrightarrow>
     onmessage s (Some (move_made gid pid pos symb b w st))
       = s\<lparr>board := b, winner := w, gameStatus := st,
           currentPlayer := Some (if symb = SymX then SymO else SymX)\<rparr>"
  by (auto simp: listening_def store_listeners_def onmessage_def handleMessage_def
      split: option.splits)

lemma makeMove_accepted_turn:
  "fst (makeMove s row col reply) = Inr r \<Longrightarrow>
     reply = Inr r \<and> currentPlayer (fst (snd (makeMove s row col reply))) = next_turn r"
  by (auto simp: makeMove_def Let_def split: option.splits if_splits sum.splits)

lemma makeMove_keeps_symbol: "mySymbol (fst (snd (makeMove s row col reply))) = mySymbol s"
  by (simp add: makeMove_def Let_def split: option.splits sum.splits)

lemma pushed_mover_is_blocked:
  "listening s \<Longrightarrow> mySymbol s = Some symb \<Longrightarrow>
     \<not> canMakeMove (onmessage s (Some (move_made gid pid pos symb b w st)))"
  by (cases symb) (simp_all add: onmessage_move_made canMakeMove_def isMyTurn_def)

lemma accepted_mover_is_blocked:
  "fst (makeMove s row col reply) = Inr r \<Longrightarrow> next_turn r \<noteq> mySymbol s \<Longrightarrow>
     \<not> canMakeMove (fst (snd (makeMove s row col reply)))"
  using makeMove_accepted_turn [of s row col reply r] makeMove_keeps_symbol [of s row col reply]
  by (auto simp: canMakeMove_def isMyTurn_def)

text \<open>
  C8, as stated, fails: in the running game Alice's move by X is accepted with a
  response that names X as the next turn. The store's turn is then X, not O, her
  next move passes the gate and is posted, and it is accepted as a second move by X
  in a row. The client takes the turn from the response and does not compute it.
\<close>

theorem turn_after_own_move_counterexample:
  "fst (makeMove alice_store 2 2 (Inr repeat_response)) = Inr repeat_response
   \<and> symbol_of repeat_response = SymX
   \<and> currentPlayer (fst (snd (makeMove alice_store 2 2 (Inr repeat_response)))) = Some SymX
   \<and> currentPlayer (fst (snd (makeMove alice_store 2 2 (Inr repeat_response)))) \<noteq> Some SymO
   \<and> makeMove (fst (snd (makeMove alice_store 2 2 (Inr repeat_response)))) 2 0
        (Inr second_response)
       = (Inr second_response,
          (fst (snd (makeMove alice_store 2 2 (Inr repeat_response))))
            \<lparr>board := move_response.board second_response, currentPlayer := Some SymO\<rparr>,
          [HttpMakeMove ''g1'' ''alice'' ''2,0''])
   \<and> symbol_of second_response = SymX"
  by code_simp

text \<open>
  C8, amended: on every store whose socket carries the store's listeners,
  \<^verbatim>\<open>game_started\<close> sets the turn to X and a \<^verbatim>\<open>move_made\<close> push by symbol s
  replaces board, winner and status and sets the turn to the other symbol, so the
  participant playing s is refused a submission while that push is the latest
  event. An accepted submission of the local participant sets the turn to the
  response's \<^verbatim>\<open>next_turn\<close>; the participant can submit again only if that names
  their own symbol. \<^verbatim>\<open>connectWebSocket\<close> installs the listeners and no event of the
  view removes them.
\<close>

theorem turn_updates:
  "(listening s \<longrightarrow> currentPlayer (onmessage s (Some (game_started gid st))) = Some SymX)
   \<and> (listening s \<longrightarrow>
        onmessage s (Some (move_made gid pid pos symb b w st))
          = s\<lparr>board := b, winner := w, gameStatus := st,
              currentPlayer := Some (if symb = SymX then SymO else SymX)\<rparr>)
   \<and> (listening s \<longrightarrow>
        currentPlayer (onmessage s (Some (move_made gid pid pos symb b w st))) \<noteq> Some symb
        \<and> currentPlayer (onmessage s (Some (move_made gid pid pos symb b w st))) \<noteq> None)
   \<and> (listening s \<and> mySymbol s = Some symb \<longrightarrow>
        \<not> canMakeMove (onmessage s (Some (move_made gid pid pos symb b w st)))
        \<and> snd (snd (makeMove (onmessage s (Some (move_made gid pid pos symb b w st)))
                    row col reply)) = [])
   \<and> (fst (makeMove s row col reply) = Inr r \<longrightarrow>
        currentPlayer (fst (snd (makeMove s row col reply))) = next_turn r)
   \<and> (fst (makeMove s row col reply) = Inr r \<and> next_turn r \<noteq> mySymbol s \<longrightarrow>
        \<not> canMakeMove (fst (snd (makeMove s row col reply))))
   \<and> listening (fst (connectWebSocket s))
   \<and> (listening (gameStore v) \<longrightarrow> listening (gameStore (fst (step tid ev v))))"
proof -
  have started: "listening s \<longrightarrow>
      currentPlayer (onmessage s (Some (game_started gid st))) = Some SymX"
    by (simp add: onmessage_game_started)
  have moved: "listening s \<longrightarrow>
      onmessage s (Some (move_made gid pid pos symb b w st))
        = s\<lparr>board := b, winner := w, gameStatus := st,
            currentPlayer := Some (if symb = SymX then SymO else SymX)\<rparr>"
    by (simp add: onmessage_move_made)
  have other: "listening s \<longrightarrow>
      currentPlayer (onmessage s (Some (move_made gid pid pos symb b w st))) \<noteq> Some symb
      \<and> currentPlayer (onmessage s (Some (move_made gid pid pos symb b w st))) \<noteq> None"
    by (cases symb) (simp_all add: onmessage_move_made)
  have blocked: "listening s \<and> mySymbol s = Some symb \<longrightarrow>
      \<not> canMakeMove (onmessage s (Some (move_made gid pid pos symb b w st)))
      \<and> snd (snd (makeMove (onmessage s (Some (move_made gid pid pos symb b w st)))
                  row col reply)) = []"
    using pushed_mover_is_blocked [of s symb gid pid pos b w st]
      makeMove_blocked [of "onmessage s (Some (move_made gid pid pos symb b w st))" row col reply]
    by auto
  have own: "fst (makeMove s row col reply) = Inr r \<longrightarrow>
      currentPlayer (fst (snd (makeMove s row col reply))) = next_turn r"
    using makeMove_accepted_turn [of s row col reply r] by blast
  have again: "fst (makeMove s row col reply) = Inr r \<and> next_turn r \<noteq> mySymbol s \<longrightarrow>
      \<not> canMakeMove (fst (snd (makeMove s row col reply)))"
    using accepted_mover_is_blocked [of s row col reply r] by blast
  have kept: "listening (gameStore v) \<longrightarrow> listening (gameStore (fst (step tid ev v)))"
    using step_keeps_listening [of v tid ev] by blast
  show ?thesis
    using started moved other blocked own again kept listening_connectWebSocket [of s]
    by blast
qed

lemma view_playing_listening: "listening (gameStore view_playing)"
  by code_simp

lemma view_playing_symbol: "mySymbol (gameStore view_playing) = Some SymX"
  by code_simp

lemma alice_wins: "fst (makeMove alice_store 0 2 (Inr winning_response)) = Inr winning_response"
  by (simp add: makeMove_def canMakeMove_def isMyTurn_def alice_store_def initial_store_def
      Let_def)

theorem turn_updates_witness:
  "listening (gameStore view_playing)
   \<and> mySymbol (gameStore view_playing) = Some SymX
   \<and> currentPlayer (onmessage (gameStore view_playing)
        (Some (game_started ''g1'' ''ongoing''))) = Some SymX
   \<and> currentPlayer (onmessage (gameStore view_playing)
        (Some (move_made ''g1'' ''alice'' ''0,0'' SymX [] None ''ongoing''))) \<noteq> Some SymX
   \<and> \<not> canMakeMove (onmessage (gameStore view_playing)
        (Some (move_made ''g1'' ''alice'' ''0,0'' SymX [] None ''ongoing'')))
   \<and> snd (snd (makeMove (onmessage (gameStore view_playing)
        (Some (move_made ''g1'' ''alice'' ''0,0'' SymX [] None ''ongoing''))) 1 1
        (Inr winning_response))) = []
   \<and> fst (makeMove alice_store 0 2 (Inr winning_response)) = Inr winning_response
   \<and> next_turn winning_response \<noteq> mySymbol alice_store
   \<and> currentPlayer (fst (snd (makeMove alice_store 0 2 (Inr winning_response))))
       = next_turn winning_response
   \<and> \<not> canMakeMove (fst (snd (makeMove alice_store 0 2 (Inr winning_response))))
   \<and> listening (gameStore (fst (step 7 TransportClose view_playing)))"
proof -
  have over: "next_turn winning_response \<noteq> mySymbol alice_store"
    by (simp add: winning_response_def alice_store_def initial_store_def)
  note push = turn_updates [of "gameStore view_playing" "''g1''" "''ongoing''" "''alice''"
      "''0,0''" SymX "[]" None 1 1 "Inr winning_response" winning_response view_playing 7
      TransportClose]
  note own = turn_updates [of alice_store "''g1''" "''ongoing''" "''alice''" "''0,0''" SymX
      "[]" None 0 2 "Inr winning_response" winning_response view_playing 7 TransportClose]
  have p1: "currentPlayer (onmessage (gameStore view_playing)
        (Some (game_started ''g1'' ''ongoing''))) = Some SymX"
    using push view_playing_listening by blast
  have p2: "currentPlayer (onmessage (gameStore view_playing)
        (Some (move_made ''g1'' ''alice'' ''0,0'' SymX [] None ''ongoing''))) \<noteq> Some SymX"
    using push view_playing_listening by blast
  have p3: "\<not> canMakeMove (onmessage (gameStore view_playing)
        (Some (move_made ''g1'' ''alice'' ''0,0'' SymX [] None ''ongoing'')))
      \<and> snd (snd (makeMove (onmessage (gameStore view_playing)
        (Some (move_made ''g1'' ''alice'' ''0,0'' SymX [] None ''ongoing''))) 1 1
        (Inr winning_response))) = []"
    using push view_playing_listening view_playing_symbol by blast
  have p4: "currentPlayer (fst (snd (makeMove alice_store 0 2 (Inr winning_response))))
       = next_turn winning_response"
    using own alice_wins by blast
  have p5: "\<not> canMakeMove (fst (snd (makeMove alice_store 0 2 (Inr winning_response))))"
    using own alice_wins over by blast
  have p6: "listening (gameStore (fst (step 7 TransportClose view_playing)))"
    using push view_playing_listening by blast
  show ?thesis
    using view_playing_listening view_playing_symbol alice_wins over p1 p2 p3 p4 p5 p6
    by simp
qed















lemma view_playing_eval:
  "view_playing = \<lparr>gameStore =
       \<lparr>currentGame = Some game_g1_waiting, board = empty_board,
          currentPlayer = Some SymX, winner = None, gameStatus = ''ongoing'',
          playerXId = ''alice'', playerOId = [], myPlayerId = ''alice'',
          mySymbol = Some SymX,
          ws = Some \<lparr>ws_handle = Some OPEN, reconnectAttempts = 0,
                 listeners =
                   [(''room_created'', [on_room_created]),
                    (''room_joined'', [on_room_joined]),
                    (''player_joined'', [on_player_joined]),
                    (''game_started'', [on_game_started]),
                    (''move_made'', [on_move_made])]\<rparr>,
          isConnected = True, playersInRoom = 2\<rparr>,
     gameId = ''g1'', error_ref = None, loading = False, retrying = False,
     retryInterval = None\<rparr>"
  by code_simp

text \<open>
  C4 does not hold on the automatic reconnect. Mounting sends one \<^verbatim>\<open>create_room\<close> after the awaited
  open. When the transport of the running game drops and the automatic reconnect of
  \<^verbatim>\<open>GameWebSocket\<close> opens a new one, the whole run sets one timer and makes one
  transport: no room command is sent on the new connection, although the symbol is
  known and the transport is open, and the supervisor stays off.
\<close>

theorem automatic_reconnect_sends_no_room_command:
  "room_commands (snd (run 7 scenario_B view0)) = [create_room ''g1'']
   \<and> snd (run 7 drop_and_reconnect view_playing) = [SetTimeout 1000, NewWebSocket]
   \<and> room_commands (snd (run 7 drop_and_reconnect view_playing)) = []
   \<and> map_option ws_handle (ws (gameStore (fst (run 7 drop_and_reconnect view_playing))))
       = Some (Some OPEN)
   \<and> mySymbol (gameStore (fst (run 7 drop_and_reconnect view_playing))) = Some SymX
   \<and> \<not> supervisor_active (fst (run 7 drop_and_reconnect view_playing))"
  by code_simp

lemma callback_level:
  "tid \<noteq> 0 \<Longrightarrow> supervisor_active (fst (watch_callback tid v)) = needs_retry v"
  by (auto simp: watch_callback_def startRetrying_def stopRetrying_def supervisor_active_def
      needs_retry_def truthy_def split: option.splits)

lemma callback_keeps_store: "gameStore (fst (watch_callback tid v)) = gameStore v"
  by (simp add: watch_callback_def startRetrying_def stopRetrying_def split: option.splits)

lemma connectWebSocket_watched:
  "isConnected (fst (connectWebSocket s)) = False
   \<and> playersInRoom (fst (connectWebSocket s)) = playersInRoom s"
  by (simp add: connectWebSocket_def Let_def)

lemma tick_level:
  "supervisor_active v \<Longrightarrow>
     supervisor_active (fst (tick v opened)) = needs_retry (fst (tick v opened))"
  by (auto simp: tick_def Let_def stopRetrying_def supervisor_active_def needs_retry_def
      truthy_def transport_open_def connectWebSocket_watched split: option.splits)

lemma handle_event_interval:
  "retryInterval (fst (handle_event ev v)) = retryInterval v
   \<or> (\<exists>opened. ev = Tick opened \<and> supervisor_active v)"
  by (cases ev)
    (auto simp: handle_event_def supervisor_active_def initializeGame_def Let_def
      split: prod.splits sum.splits)

lemma handle_event_level:
  assumes "watched (fst (handle_event ev v)) = watched v"
    and "supervisor_active v = needs_retry v"
  shows "supervisor_active (fst (handle_event ev v)) = needs_retry (fst (handle_event ev v))"
proof (cases "\<exists>opened. ev = Tick opened \<and> supervisor_active v")
  case True
  then show ?thesis
    by (auto simp: handle_event_def supervisor_active_def [symmetric] tick_level)
next
  case False
  then have "retryInterval (fst (handle_event ev v)) = retryInterval v"
    using handle_event_interval [of ev v] by blast
  then have "supervisor_active (fst (handle_event ev v)) = supervisor_active v"
    by (simp add: supervisor_active_def)
  moreover have "needs_retry (fst (handle_event ev v)) = needs_retry v"
    using assms(1) by (simp add: watched_def needs_retry_def)
  ultimately show ?thesis using assms(2) by simp
qed

lemma step_unfold:
  "fst (step tid ev v) =
     (if watched (fst (handle_event ev v)) = watched v then fst (handle_event ev v)
      else fst (watch_callback tid (fst (handle_event ev v))))"
  by (auto simp: step_def watch_flush_def watched_def split: prod.splits)

lemma step_watched: "watched (fst (step tid ev v)) = watched (fst (handle_event ev v))"
  by (simp add: step_unfold watched_def callback_keeps_store)

lemma step_level_changed:
  "tid \<noteq> 0 \<Longrightarrow> watched (fst (step tid ev v)) \<noteq> watched v \<Longrightarrow>
     supervisor_active (fst (step tid ev v)) = needs_retry (fst (step tid ev v))"
  by (simp add: step_watched)
    (simp add: step_unfold callback_level needs_retry_def callback_keeps_store)

lemma step_level_kept:
  "tid \<noteq> 0 \<Longrightarrow> supervisor_active v = needs_retry v \<Longrightarrow>
     supervisor_active (fst (step tid ev v)) = needs_retry (fst (step tid ev v))"
  by (cases "watched (fst (handle_event ev v)) = watched v")
    (simp_all add: step_unfold handle_event_level callback_level needs_retry_def
      callback_keeps_store)

lemma run_level_kept:
  "tid \<noteq> 0 \<Longrightarrow> supervisor_active v = needs_retry v \<Longrightarrow>
     supervisor_active (fst (run tid evs v)) = needs_retry (fst (run tid evs v))"
proof (induction evs arbitrary: v)
  case Nil
  then show ?case by simp
next
  case (Cons ev evs)
  have "supervisor_active (fst (step tid ev v)) = needs_retry (fst (step tid ev v))"
    using Cons.prems by (rule step_level_kept)
  then have "supervisor_active (fst (run tid evs (fst (step tid ev v))))
      = needs_retry (fst (run tid evs (fst (step tid ev v))))"
    using Cons.IH Cons.prems(1) by blast
  then show ?case by (simp add: split_beta)
qed

lemma startRetrying_idle:
  "supervisor_active v \<Longrightarrow> startRetrying tid v = (v, [])"
  by (simp add: startRetrying_def supervisor_active_def)

text \<open>
  What the watcher does maintain, for an interval handle other than 0: after every
  event that changes \<^verbatim>\<open>isConnected\<close> or \<^verbatim>\<open>playersInRoom\<close> the supervisor is
  active iff the store is not connected or fewer than two players are in the room;
  once that holds it holds after every further run of events; starting the
  supervisor while it is active changes nothing; and a tick leaves it active iff the
  condition still holds when the tick ends.
\<close>

lemma watcher_keeps_level:
  assumes "tid \<noteq> 0"
  shows "(watched (fst (step tid ev v)) \<noteq> watched v \<longrightarrow>
            supervisor_active (fst (step tid ev v)) = needs_retry (fst (step tid ev v)))
         \<and> (supervisor_active v = needs_retry v \<longrightarrow>
            supervisor_active (fst (run tid evs v)) = needs_retry (fst (run tid evs v)))
         \<and> (supervisor_active v \<longrightarrow> startRetrying tid v = (v, []))
         \<and> (supervisor_active v \<longrightarrow>
            supervisor_active (fst (tick v opened)) = needs_retry (fst (tick v opened)))"
  using assms step_level_changed [of tid ev v] run_level_kept [of tid v evs]
    startRetrying_idle [of v tid] tick_level [of v opened]
  by blast

text \<open>
  Before the first change of a watched value nothing evaluates the condition. A
  view that is not connected and has no interval stays so under every run of
  transport events and ticks, and sends no room command.
\<close>

lemma room_commands_append:
  "room_commands (xs @ ys) = room_commands xs @ room_commands ys"
  by (induction xs rule: room_commands.induct) auto

lemma quiet_step:
  assumes "\<not> isConnected (gameStore v)" and "retryInterval v = None" and "quiet_event ev"
  shows "\<not> isConnected (gameStore (fst (step tid ev v)))
         \<and> retryInterval (fst (step tid ev v)) = None
         \<and> playersInRoom (gameStore (fst (step tid ev v))) = playersInRoom (gameStore v)
         \<and> room_commands (snd (step tid ev v)) = []"
  using assms
  by (cases ev)
    (auto simp: step_def handle_event_def watch_flush_def truthy_def transport_open_def
      transport_close_def transport_reconnect_def onclose_def attemptReconnect_def
      reconnect_timeout_def connect_def Let_def split: option.splits)

lemma failed_mount_never_recovers:
  "\<not> isConnected (gameStore v) \<Longrightarrow> retryInterval v = None \<Longrightarrow> list_all quiet_event evs \<Longrightarrow>
     needs_retry (fst (run tid evs v)) \<and> \<not> supervisor_active (fst (run tid evs v))
     \<and> room_commands (snd (run tid evs v)) = []"
proof (induction evs arbitrary: v)
  case Nil
  then show ?case
    by (simp add: needs_retry_def supervisor_active_def truthy_def)
next
  case (Cons ev evs)
  have q: "quiet_event ev" and qs: "list_all quiet_event evs"
    using Cons.prems(3) by simp_all
  note st = quiet_step [OF Cons.prems(1) Cons.prems(2) q, of tid]
  have off: "\<not> isConnected (gameStore (fst (step tid ev v)))"
    and none: "retryInterval (fst (step tid ev v)) = None"
    using st by simp_all
  have rest: "needs_retry (fst (run tid evs (fst (step tid ev v))))
      \<and> \<not> supervisor_active (fst (run tid evs (fst (step tid ev v))))
      \<and> room_commands (snd (run tid evs (fst (step tid ev v)))) = []"
    by (rule Cons.IH [OF off none qs])
  then show ?case
    using st by (simp add: split_beta room_commands_append)
qed

text \<open>
  C5 does not hold after a mount that cannot connect. The requests of the mount are
  the two loads and one transport, and no interval is set: the store is not
  connected, yet the supervisor is not active. When the transport then closes and
  the socket object reconnects by itself, the view is still not connected, still
  without supervisor, and no room command has been sent.
\<close>

theorem failed_mount_leaves_supervisor_off:
  "snd (step 7 (Mounted (Some ''alice'') (Inr game_g1_waiting) (Inr (empty_board, None)) False)
          view0)
     = [HttpGetGame ''g1'', HttpGetBoard ''g1'', NewWebSocket]
   \<and> needs_retry view_unreachable \<and> \<not> supervisor_active view_unreachable
   \<and> needs_retry (fst (run 7 drop_and_reconnect view_unreachable))
   \<and> \<not> supervisor_active (fst (run 7 drop_and_reconnect view_unreachable))
   \<and> map_option ws_handle (ws (gameStore (fst (run 7 drop_and_reconnect view_unreachable))))
       = Some (Some OPEN)
   \<and> room_commands (snd (run 7 drop_and_reconnect view_unreachable)) = []"
  by code_simp

theorem failed_mount_leaves_supervisor_off_witness:
  "\<not> isConnected (gameStore view_unreachable)
   \<and> needs_retry view_unreachable \<and> \<not> supervisor_active view_unreachable"
proof -
  have off: "\<not> isConnected (gameStore view_unreachable)"
    by code_simp
  show ?thesis
    using off failed_mount_leaves_supervisor_off by simp
qed

end
